theory Spec2Isabelle
  imports Main
begin

section \<open>Strings and the character predicates of the regular-expression dialect\<close>

text \<open>
  The validation engine (\<open>calculateRisk\<close> and \<open>luhnCheck\<close>) works on JavaScript strings.
  A string is modelled as a \<open>string\<close>, one \<open>char\<close> per code unit, which covers the code
  units below 256 (Latin-1). \<open>length\<close> is the \<open>.length\<close> of the source, \<open>s ! i\<close> under
  the guard \<open>i < length s\<close> is \<open>charAt\<close>.

  The patterns carry neither the \<open>i\<close> nor the \<open>u\<close> flag, so \<open>\d\<close> is \<open>[0-9]\<close>, \<open>\w\<close> is
  \<open>[A-Za-z0-9_]\<close> and \<open>\s\<close> is the white space and line terminators of the language:
  below 256 these are TAB, LF, VT, FF, CR, SP and NBSP.
\<close>

definition code :: "char \<Rightarrow> nat" where
  "code c = of_char c"

definition isDigit :: "char \<Rightarrow> bool" where
  "isDigit c = (48 \<le> code c \<and> code c \<le> 57)"

definition isUpper :: "char \<Rightarrow> bool" where
  "isUpper c = (65 \<le> code c \<and> code c \<le> 90)"

definition isLower :: "char \<Rightarrow> bool" where
  "isLower c = (97 \<le> code c \<and> code c \<le> 122)"

definition isWordChar :: "char \<Rightarrow> bool" where
  "isWordChar c = (isDigit c \<or> isUpper c \<or> isLower c \<or> c = CHR ''_'')"

definition isSpace :: "char \<Rightarrow> bool" where
  "isSpace c = (code c \<in> {9, 10, 11, 12, 13, 32, 160})"

section \<open>Regular expressions with backtracking priority\<close>

text \<open>
  A character class is a list of items; a pattern is built from classes, the word
  boundary \<open>\b\<close>, concatenation, alternation and the quantifier \<open>{min,max}\<close>, greedy or
  lazy (\<open>max = None\<close> is the unbounded quantifier).
\<close>

datatype citem = CRange char char | COne char | CDigit | CSpace

datatype regex =
    Cls "citem list"
  | Bnd
  | Emp
  | Cat regex regex
  | Alt regex regex
  | Rep nat "nat option" bool regex

fun inItem :: "citem \<Rightarrow> char \<Rightarrow> bool" where
  "inItem (CRange lo hi) c = (code lo \<le> code c \<and> code c \<le> code hi)"
| "inItem (COne d) c = (c = d)"
| "inItem CDigit c = isDigit c"
| "inItem CSpace c = isSpace c"

definition inClass :: "citem list \<Rightarrow> char \<Rightarrow> bool" where
  "inClass cs c = list_ex (\<lambda>i. inItem i c) cs"

text \<open>
  \<open>wordAt s x\<close> is the \<open>IsWordChar\<close> of the language definition: false outside the
  string. \<open>\b\<close> holds at \<open>x\<close> when exactly one of the positions \<open>x - 1\<close> and \<open>x\<close> holds a
  word character.
\<close>

definition wordAt :: "string \<Rightarrow> nat \<Rightarrow> bool" where
  "wordAt s x = (x < length s \<and> isWordChar (s ! x))"

definition boundary :: "string \<Rightarrow> nat \<Rightarrow> bool" where
  "boundary s x = ((0 < x \<and> wordAt s (x - 1)) \<noteq> wordAt s x)"

text \<open>
  \<open>rep m n mn mx greedy x\<close> is the \<open>RepeatMatcher\<close> of the language definition for a
  body matcher \<open>m\<close> on a string of length \<open>n\<close>: the end positions of the quantified
  pattern started at \<open>x\<close>, in backtracking order. An iteration that is not required
  (\<open>mn = 0\<close>) and matches the empty string is rejected there; the test written here,
  \<open>\<not> (x < y \<and> y \<le> n)\<close>, is that test for every matcher whose end positions lie between
  its start and the end of the string (lemma \<open>ends_bounds\<close> below), and it makes the
  recursion terminate for any \<open>m\<close>.
\<close>

function rep :: "(nat \<Rightarrow> nat list) \<Rightarrow> nat \<Rightarrow> nat \<Rightarrow> nat option \<Rightarrow> bool \<Rightarrow> nat \<Rightarrow> nat list" where
  "rep m n mn mx greedy x =
     (if mx = Some 0 then [x]
      else
        let z = concat (map (\<lambda>y. if mn = 0 \<and> \<not> (x < y \<and> y \<le> n) then []
                                  else rep m n (mn - 1) (map_option (\<lambda>k. k - 1) mx) greedy y)
                            (m x))
        in if mn \<noteq> 0 then z else if greedy then z @ [x] else x # z)"
  by pat_completeness auto
termination
  by (relation "measures [\<lambda>(m, n, mn, mx, g, x). mn, \<lambda>(m, n, mn, mx, g, x). n - x]") auto

text \<open>
  \<open>ends r s x\<close>: the end positions of the matches of \<open>r\<close> in \<open>s\<close> that start at \<open>x\<close>, in
  the order in which a backtracking matcher tries them.
\<close>

primrec ends :: "regex \<Rightarrow> string \<Rightarrow> nat \<Rightarrow> nat list" where
  "ends (Cls cs) s x = (if x < length s \<and> inClass cs (s ! x) then [x + 1] else [])"
| "ends Bnd s x = (if boundary s x then [x] else [])"
| "ends Emp s x = [x]"
| "ends (Cat r1 r2) s x = concat (map (ends r2 s) (ends r1 s x))"
| "ends (Alt r1 r2) s x = ends r1 s x @ ends r2 s x"
| "ends (Rep mn mx greedy r) s x = rep (ends r s) (length s) mn mx greedy x"

text \<open>
  \<open>execFrom r s i\<close> is the search of \<open>RegExpBuiltinExec\<close>: the first start position at
  or after \<open>i\<close> where \<open>r\<close> matches, with the end of the match the backtracking matcher
  finds first; \<open>None\<close> when the search runs past the end of the string.
\<close>

function execFrom :: "regex \<Rightarrow> string \<Rightarrow> nat \<Rightarrow> (nat \<times> nat) option" where
  "execFrom r s i =
     (if length s < i then None
      else case ends r s i of
             [] \<Rightarrow> execFrom r s (Suc i)
           | e # _ \<Rightarrow> Some (i, e))"
  by pat_completeness auto
termination
  by (relation "measure (\<lambda>(r, s, i). Suc (length s) - i)") auto

text \<open>
  \<open>RegExp.prototype.test\<close> on a pattern without the \<open>g\<close> and \<open>y\<close> flags: the search
  starts at 0 and the \<open>lastIndex\<close> of the pattern object is neither read nor written.
\<close>

definition test :: "regex \<Rightarrow> string \<Rightarrow> bool" where
  "test r s = (execFrom r s 0 \<noteq> None)"

section \<open>The pattern table\<close>

definition digit :: regex where
  "digit = Cls [CDigit]"

definition exactly :: "nat \<Rightarrow> regex \<Rightarrow> regex" where
  "exactly k r = Rep k (Some k) True r"

definition orMore :: "nat \<Rightarrow> regex \<Rightarrow> regex" where
  "orMore k r = Rep k None True r"

definition between :: "nat \<Rightarrow> nat \<Rightarrow> regex \<Rightarrow> regex" where
  "between k l r = Rep k (Some l) True r"

definition opt :: "regex \<Rightarrow> regex" where
  "opt r = Rep 0 (Some 1) True r"

definition lazyStar :: "regex \<Rightarrow> regex" where
  "lazyStar r = Rep 0 None False r"

fun lit :: "string \<Rightarrow> regex" where
  "lit [] = Emp"
| "lit (c # cs) = Cat (Cls [COne c]) (lit cs)"

fun cats :: "regex list \<Rightarrow> regex" where
  "cats [] = Emp"
| "cats (r # rs) = Cat r (cats rs)"

fun alts :: "regex \<Rightarrow> regex list \<Rightarrow> regex" where
  "alts r [] = r"
| "alts r (q # rs) = Alt r (alts q rs)"

definition alnum :: "citem list" where
  "alnum = [CRange CHR ''a'' CHR ''z'', CRange CHR ''A'' CHR ''Z'', CRange CHR ''0'' CHR ''9'']"

definition alpha :: "citem list" where
  "alpha = [CRange CHR ''a'' CHR ''z'', CRange CHR ''A'' CHR ''Z'']"

definition sep :: "citem list" where
  "sep = [COne CHR ''-'', COne CHR ''.'', CSpace]"

text \<open>\<^verbatim>\<open>CREDIT_CARD: /\b(?:\d[ -]*?){13,19}\b/g\<close>\<close>

definition CREDIT_CARD :: regex where
  "CREDIT_CARD =
     cats [Bnd,
           between 13 19 (Cat digit (lazyStar (Cls [COne CHR '' '', COne CHR ''-'']))),
           Bnd]"

text \<open>\<^verbatim>\<open>AADHAAR: /\b\d{4}\s?\d{4}\s?\d{4}\b/\<close>\<close>

definition AADHAAR :: regex where
  "AADHAAR =
     cats [Bnd, exactly 4 digit, opt (Cls [CSpace]), exactly 4 digit, opt (Cls [CSpace]),
           exactly 4 digit, Bnd]"

text \<open>
  \<^verbatim>\<open>API_KEY: /\b(?:sk_live_[0-9a-zA-Z]{24,}|eyJ[a-zA-Z0-9_-]{10,}\.[a-zA-Z0-9_-]{10,}\.[a-zA-Z0-9_-]{10,}|AIza[0-9A-Za-z\-_]{30,40}|AKIA[0-9A-Z]{16}|ghp_[a-zA-Z0-9]{36}|xox[baprs]-[a-zA-Z0-9-]{10,})\b/\<close>
\<close>

definition base64url :: "citem list" where
  "base64url = alnum @ [COne CHR ''_'', COne CHR ''-'']"

definition API_KEY :: regex where
  "API_KEY =
     cats [Bnd,
           alts (Cat (lit ''sk_live_'') (orMore 24 (Cls alnum)))
             [cats [lit ''eyJ'', orMore 10 (Cls base64url), lit ''.'',
                    orMore 10 (Cls base64url), lit ''.'', orMore 10 (Cls base64url)],
              Cat (lit ''AIza'') (between 30 40 (Cls base64url)),
              Cat (lit ''AKIA'')
                  (exactly 16 (Cls [CRange CHR ''0'' CHR ''9'', CRange CHR ''A'' CHR ''Z''])),
              Cat (lit ''ghp_'') (exactly 36 (Cls alnum)),
              cats [lit ''xox'',
                    Cls [COne CHR ''b'', COne CHR ''a'', COne CHR ''p'', COne CHR ''r'',
                         COne CHR ''s''],
                    lit ''-'', orMore 10 (Cls (alnum @ [COne CHR ''-'']))]],
           Bnd]"

text \<open>\<^verbatim>\<open>CVV: /\b\d{3,4}\b/\<close>\<close>

definition CVV :: regex where
  "CVV = cats [Bnd, between 3 4 digit, Bnd]"

text \<open>\<^verbatim>\<open>OTP: /\b\d{4,8}\b/\<close> (no statement of \<open>calculateRisk\<close> uses it)\<close>

definition OTP :: regex where
  "OTP = cats [Bnd, between 4 8 digit, Bnd]"

text \<open>\<^verbatim>\<open>EMAIL: /\b[a-zA-Z0-9._%+-]+@[a-zA-Z0-9.-]+\.[a-zA-Z]{2,}\b/\<close>\<close>

definition EMAIL :: regex where
  "EMAIL =
     cats [Bnd,
           orMore 1 (Cls (alnum @ [COne CHR ''.'', COne CHR ''_'', COne CHR ''%'',
                                    COne CHR ''+'', COne CHR ''-''])),
           lit ''@'',
           orMore 1 (Cls (alnum @ [COne CHR ''.'', COne CHR ''-''])),
           lit ''.'',
           orMore 2 (Cls alpha),
           Bnd]"

text \<open>
  \<^verbatim>\<open>PHONE: /(?:\b\+?\d{1,3}[-.\s]?)?\(?\d{3}\)?[-.\s]?\d{3}[-.\s]?\d{4}\b/\<close>
\<close>

definition PHONE :: regex where
  "PHONE =
     cats [opt (cats [Bnd, opt (lit ''+''), between 1 3 digit, opt (Cls sep)]),
           opt (lit ''(''), exactly 3 digit, opt (lit '')''), opt (Cls sep),
           exactly 3 digit, opt (Cls sep), exactly 4 digit, Bnd]"

text \<open>\<^verbatim>\<open>PAN: /\b[A-Z]{5}[0-9]{4}[A-Z]{1}\b/\<close>\<close>

definition PAN :: regex where
  "PAN =
     cats [Bnd, exactly 5 (Cls [CRange CHR ''A'' CHR ''Z'']),
           exactly 4 (Cls [CRange CHR ''0'' CHR ''9'']),
           exactly 1 (Cls [CRange CHR ''A'' CHR ''Z'']), Bnd]"

text \<open>\<^verbatim>\<open>UPI: /\b[a-zA-Z0-9.\-_]{2,}@[a-zA-Z]{2,}\b/\<close>\<close>

definition UPI :: regex where
  "UPI =
     cats [Bnd, orMore 2 (Cls (alnum @ [COne CHR ''.'', COne CHR ''-'', COne CHR ''_''])),
           lit ''@'', orMore 2 (Cls alpha), Bnd]"

definition HIGH_RISK_KEYWORDS :: "string list" where
  "HIGH_RISK_KEYWORDS =
     [''password'', ''pwd'', ''secret'', ''token'', ''key'', ''cvv'', ''cvc'', ''card'',
      ''debit'', ''credit'']"

definition MEDIUM_RISK_KEYWORDS :: "string list" where
  "MEDIUM_RISK_KEYWORDS =
     [''email'', ''phone'', ''mobile'', ''pan'', ''upi'', ''bank'', ''account'']"

section \<open>String operations of the engine\<close>

text \<open>
  \<open>toLowerCase\<close> on code units below 256: the letters \<open>A\<close> to \<open>Z\<close> and the accented
  capitals 0xC0 to 0xDE (0xD7, the multiplication sign, apart) move up by 32.
\<close>

definition lowerChar :: "char \<Rightarrow> char" where
  "lowerChar c =
     (if isUpper c \<or> (192 \<le> code c \<and> code c \<le> 222 \<and> code c \<noteq> 215)
      then char_of (code c + 32) else c)"

definition toLowerCase :: "string \<Rightarrow> string" where
  "toLowerCase s = map lowerChar s"

fun startsWith :: "string \<Rightarrow> string \<Rightarrow> bool" where
  "startsWith s [] = True"
| "startsWith [] (k # ks) = False"
| "startsWith (c # cs) (k # ks) = (c = k \<and> startsWith cs ks)"

fun String_includes :: "string \<Rightarrow> string \<Rightarrow> bool" where
  "String_includes [] k = (k = [])"
| "String_includes (c # cs) k = (startsWith (c # cs) k \<or> String_includes cs k)"

definition substring :: "string \<Rightarrow> nat \<Rightarrow> nat \<Rightarrow> string" where
  "substring s i e = take (e - i) (drop i s)"

fun join :: "string list \<Rightarrow> string \<Rightarrow> string" where
  "join [] sp = []"
| "join [x] sp = x"
| "join (x # y # ys) sp = x @ sp @ join (y # ys) sp"

text \<open>\<^verbatim>\<open>match.replace(/[\s-]/g, '')\<close>: every white-space character and hyphen is removed.\<close>

definition stripSeparators :: "string \<Rightarrow> string" where
  "stripSeparators m = filter (\<lambda>c. \<not> (isSpace c \<or> c = CHR ''-'')) m"

section \<open>The checksum of \<open>luhnCheck\<close>\<close>

text \<open>
  Numbers of the source are modelled as \<open>int option\<close>, \<open>None\<close> being \<open>NaN\<close>. \<open>Number\<close> of a
  one-character string is the digit's value, 0 for a white-space character (the string is
  trimmed first) and \<open>NaN\<close> for any other character. A comparison with \<open>NaN\<close> is false and
  arithmetic on \<open>NaN\<close> is \<open>NaN\<close>.
\<close>

definition Number :: "char \<Rightarrow> int option" where
  "Number c =
     (if isDigit c then Some (int (code c) - 48) else if isSpace c then Some 0 else None)"

definition jsAdd :: "int option \<Rightarrow> int option \<Rightarrow> int option" where
  "jsAdd a b = (case (a, b) of (Some x, Some y) \<Rightarrow> Some (x + y) | _ \<Rightarrow> None)"

definition jsMul :: "int option \<Rightarrow> int option \<Rightarrow> int option" where
  "jsMul a b = (case (a, b) of (Some x, Some y) \<Rightarrow> Some (x * y) | _ \<Rightarrow> None)"

definition jsSub :: "int option \<Rightarrow> int option \<Rightarrow> int option" where
  "jsSub a b = (case (a, b) of (Some x, Some y) \<Rightarrow> Some (x - y) | _ \<Rightarrow> None)"

definition jsGt :: "int option \<Rightarrow> int \<Rightarrow> bool" where
  "jsGt a b = (case a of Some x \<Rightarrow> b < x | None \<Rightarrow> False)"

text \<open>
  The loop of \<open>luhnCheck\<close>, \<^verbatim>\<open>for (let i = value.length - 1; i >= 0; i--)\<close>: the second
  argument of \<open>luhnLoop\<close> is \<open>i + 1\<close>, so that \<open>0\<close> is the exit of the loop; \<open>checksum\<close> and
  \<open>j\<close> are the variables of the source.
\<close>

fun luhnLoop :: "string \<Rightarrow> nat \<Rightarrow> int option \<Rightarrow> int \<Rightarrow> int option" where
  "luhnLoop v 0 checksum j = checksum"
| "luhnLoop v (Suc i) checksum j =
     (let calc = jsMul (Number (v ! i)) (Some j);
          checksum1 = (if jsGt calc 9 then jsAdd checksum (Some 1) else checksum);
          calc1 = (if jsGt calc 9 then jsSub calc (Some 10) else calc);
          checksum2 = jsAdd checksum1 calc1
      in luhnLoop v i checksum2 (if j = 1 then 2 else 1))"

text \<open>
  \<^verbatim>\<open>return (checksum % 10) === 0\<close>: false on \<open>NaN\<close>. The checksum is never negative, where
  the remainder of the source and \<open>mod\<close> agree.
\<close>

definition luhnCheck :: "string \<Rightarrow> bool" where
  "luhnCheck v =
     (case luhnLoop v (length v) (Some 0) 1 of
        None \<Rightarrow> False
      | Some checksum \<Rightarrow> checksum mod 10 = 0)"

section \<open>Where a match can end\<close>

declare rep.simps [simp del]
declare execFrom.simps [simp del]

lemma rep_unfold_done: "rep m n mn (Some 0) g x = [x]"
  by (subst rep.simps) simp

lemma rep_unfold_more:
  "mx \<noteq> Some 0 \<Longrightarrow>
   set (rep m n mn mx g x) =
     (\<Union>y \<in> {y \<in> set (m x). \<not> (mn = 0 \<and> \<not> (x < y \<and> y \<le> n))}.
        set (rep m n (mn - 1) (map_option (\<lambda>k. k - 1) mx) g y))
     \<union> (if mn = 0 then {x} else {})"
  by (subst rep.simps) (auto simp: Let_def)

lemma rep_bounds:
  "(\<forall>x y. x \<le> n \<longrightarrow> y \<in> set (m x) \<longrightarrow> x \<le> y \<and> y \<le> n) \<Longrightarrow> x \<le> n \<Longrightarrow>
   e \<in> set (rep m n mn mx g x) \<Longrightarrow> x \<le> e \<and> e \<le> n"
proof (induction m n mn mx g x arbitrary: e rule: rep.induct)
  case (1 m n mn mx greedy x)
  show ?case
  proof (cases "mx = Some 0")
    case True
    with "1.prems"(2,3) show ?thesis by (simp add: rep_unfold_done)
  next
    case False
    from "1.prems"(3) have "e = x \<or> (\<exists>y \<in> set (m x). \<not> (mn = 0 \<and> \<not> (x < y \<and> y \<le> n)) \<and>
          e \<in> set (rep m n (mn - 1) (map_option (\<lambda>k. k - 1) mx) greedy y))"
      unfolding rep_unfold_more [OF False] by (auto split: if_splits)
    then show ?thesis
    proof
      assume "e = x"
      with "1.prems"(2) show ?thesis by simp
    next
      assume "\<exists>y \<in> set (m x). \<not> (mn = 0 \<and> \<not> (x < y \<and> y \<le> n)) \<and>
          e \<in> set (rep m n (mn - 1) (map_option (\<lambda>k. k - 1) mx) greedy y)"
      then obtain y where y: "y \<in> set (m x)"
        and ok: "\<not> (mn = 0 \<and> \<not> (x < y \<and> y \<le> n))"
        and e: "e \<in> set (rep m n (mn - 1) (map_option (\<lambda>k. k - 1) mx) greedy y)"
        by blast
      from "1.prems"(1,2) y have xy: "x \<le> y \<and> y \<le> n" by blast
      then have yn: "y \<le> n" by simp
      from "1.IH" [OF False y ok "1.prems"(1) yn e] xy show ?thesis by simp
    qed
  qed
qed

text \<open>
  Every match ends between its start and the end of the string. So the iteration test of
  \<open>rep\<close> rejects exactly the empty iterations, as the language definition does.
\<close>

lemma ends_bounds:
  "x \<le> length s \<Longrightarrow> e \<in> set (ends r s x) \<Longrightarrow> x \<le> e \<and> e \<le> length s"
proof (induction r arbitrary: x e)
  case (Cls cs)
  then show ?case by (simp split: if_splits)
next
  case Bnd
  then show ?case by (simp split: if_splits)
next
  case Emp
  then show ?case by simp
next
  case (Cat r1 r2)
  from Cat.prems(2) obtain y where y: "y \<in> set (ends r1 s x)" and e: "e \<in> set (ends r2 s y)"
    by auto
  from Cat.IH(1) [OF Cat.prems(1) y] have xy: "x \<le> y \<and> y \<le> length s" .
  with Cat.IH(2) [OF _ e] show ?case by simp
next
  case (Alt r1 r2)
  from Alt.prems(2) have "e \<in> set (ends r1 s x) \<or> e \<in> set (ends r2 s x)" by simp
  with Alt.IH Alt.prems(1) show ?case by blast
next
  case (Rep mn mx g r)
  have "\<forall>x y. x \<le> length s \<longrightarrow> y \<in> set (ends r s x) \<longrightarrow> x \<le> y \<and> y \<le> length s"
    using Rep.IH by blast
  from rep_bounds [OF this Rep.prems(1)] Rep.prems(2) show ?case by simp
qed

lemma rep_guard_exact:
  "x \<le> length s \<Longrightarrow> y \<in> set (ends r s x) \<Longrightarrow> (\<not> (x < y \<and> y \<le> length s)) = (y = x)"
  using ends_bounds [of x s y r] by auto

lemma execFrom_bounds:
  "execFrom r s li = Some (i, e) \<Longrightarrow> li \<le> i \<and> i \<le> e \<and> e \<le> length s"
proof (induction r s li rule: execFrom.induct)
  case (1 r s li)
  show ?case
  proof (cases "length s < li")
    case True
    with "1.prems" show ?thesis by (simp add: execFrom.simps [of r s li])
  next
    case False
    show ?thesis
    proof (cases "ends r s li")
      case Nil
      with False "1.prems" have "execFrom r s (Suc li) = Some (i, e)"
        by (simp add: execFrom.simps [of r s li])
      from "1.IH" [OF False Nil this] show ?thesis by simp
    next
      case (Cons e' es)
      with False "1.prems" have "i = li" "e = e'"
        by (simp_all add: execFrom.simps [of r s li])
      moreover from Cons have "e' \<in> set (ends r s li)" by simp
      with False ends_bounds [of li s e' r] have "li \<le> e' \<and> e' \<le> length s" by simp
      ultimately show ?thesis by simp
    qed
  qed
qed

lemma execFrom_ends:
  "execFrom r s li = Some (i, e) \<Longrightarrow> e \<in> set (ends r s i)"
proof (induction r s li rule: execFrom.induct)
  case (1 r s li)
  show ?case
  proof (cases "length s < li")
    case True
    with "1.prems" show ?thesis by (simp add: execFrom.simps [of r s li])
  next
    case False
    show ?thesis
    proof (cases "ends r s li")
      case Nil
      with False "1.prems" have "execFrom r s (Suc li) = Some (i, e)"
        by (simp add: execFrom.simps [of r s li])
      from "1.IH" [OF False Nil this] show ?thesis .
    next
      case (Cons e' es)
      with False "1.prems" have "i = li" "e = e'"
        by (simp_all add: execFrom.simps [of r s li])
      with Cons show ?thesis by simp
    qed
  qed
qed

lemma rep_min_len:
  "(\<forall>x y. y \<in> set (m x) \<longrightarrow> x < y) \<Longrightarrow> (\<forall>k. mx = Some k \<longrightarrow> mn \<le> k) \<Longrightarrow>
   e \<in> set (rep m n mn mx g x) \<Longrightarrow> x + mn \<le> e"
proof (induction m n mn mx g x arbitrary: e rule: rep.induct)
  case (1 m n mn mx greedy x)
  show ?case
  proof (cases "mx = Some 0")
    case True
    with "1.prems"(2) have "mn = 0" by simp
    with True "1.prems"(3) show ?thesis by (simp add: rep_unfold_done)
  next
    case False
    from "1.prems"(3) have "(mn = 0 \<and> e = x) \<or>
        (\<exists>y \<in> set (m x). \<not> (mn = 0 \<and> \<not> (x < y \<and> y \<le> n)) \<and>
          e \<in> set (rep m n (mn - 1) (map_option (\<lambda>k. k - 1) mx) greedy y))"
      unfolding rep_unfold_more [OF False] by (auto split: if_splits)
    then show ?thesis
    proof
      assume "mn = 0 \<and> e = x"
      then show ?thesis by simp
    next
      assume "\<exists>y \<in> set (m x). \<not> (mn = 0 \<and> \<not> (x < y \<and> y \<le> n)) \<and>
          e \<in> set (rep m n (mn - 1) (map_option (\<lambda>k. k - 1) mx) greedy y)"
      then obtain y where y: "y \<in> set (m x)"
        and ok: "\<not> (mn = 0 \<and> \<not> (x < y \<and> y \<le> n))"
        and e: "e \<in> set (rep m n (mn - 1) (map_option (\<lambda>k. k - 1) mx) greedy y)"
        by blast
      from "1.prems"(1) y have xy: "x < y" by blast
      from "1.prems"(2) have wf: "\<forall>k. map_option (\<lambda>k. k - 1) mx = Some k \<longrightarrow> mn - 1 \<le> k"
        by (cases mx) auto
      from "1.IH" [OF False y ok "1.prems"(1) wf e] have "y + (mn - 1) \<le> e" .
      with xy show ?thesis by simp
    qed
  qed
qed

text \<open>
  A pattern of the form \<open>\b B{mn,mx} ...\<close>, whose body \<open>B\<close> consumes at least one
  character, matches only in strings of at least \<open>mn\<close> characters.
\<close>

lemma test_min_length:
  assumes body: "\<forall>x y. y \<in> set (ends b s x) \<longrightarrow> x < y"
    and wf: "\<forall>k. mx = Some k \<longrightarrow> mn \<le> k"
    and t: "test (Cat Bnd (Cat (Rep mn mx g b) r)) s"
  shows "mn \<le> length s"
proof -
  from t obtain i e where ex: "execFrom (Cat Bnd (Cat (Rep mn mx g b) r)) s 0 = Some (i, e)"
    by (auto simp: test_def)
  from execFrom_bounds [OF ex] have il: "i \<le> length s" by simp
  from execFrom_ends [OF ex]
  have "e \<in> set (concat (map (ends (Cat (Rep mn mx g b) r) s) (ends Bnd s i)))"
    by (simp only: ends.simps)
  then have "e \<in> set (ends (Cat (Rep mn mx g b) r) s i)"
    by (simp split: if_splits)
  then have "e \<in> set (concat (map (ends r s) (rep (ends b s) (length s) mn mx g i)))"
    by (simp only: ends.simps)
  then obtain y where y: "y \<in> set (rep (ends b s) (length s) mn mx g i)"
    by auto
  from rep_min_len [OF body wf y] have "i + mn \<le> y" .
  moreover have "y \<le> length s"
  proof -
    have "y \<in> set (ends (Rep mn mx g b) s i)" using y by simp
    from ends_bounds [OF il this] show ?thesis by simp
  qed
  ultimately show ?thesis by simp
qed

lemma cls_advances: "\<forall>x y. y \<in> set (ends (Cls cs) s x) \<longrightarrow> x < y"
  by (simp split: if_splits)

lemma test_CVV_length: "test CVV val \<Longrightarrow> 3 \<le> length val"
proof -
  assume "test CVV val"
  then have "test (Cat Bnd (Cat (Rep 3 (Some 4) True (Cls [CDigit])) (cats [Bnd]))) val"
    by (simp only: CVV_def between_def digit_def cats.simps)
  from test_min_length [OF cls_advances _ this] show ?thesis by simp
qed

lemma test_AADHAAR_length: "test AADHAAR val \<Longrightarrow> 3 \<le> length val"
proof -
  assume "test AADHAAR val"
  then have "\<exists>R. test (Cat Bnd (Cat (Rep 4 (Some 4) True (Cls [CDigit])) R)) val"
    unfolding AADHAAR_def exactly_def digit_def cats.simps by (rule exI)
  then obtain R where "test (Cat Bnd (Cat (Rep 4 (Some 4) True (Cls [CDigit])) R)) val" ..
  from test_min_length [OF cls_advances _ this] show ?thesis by simp
qed

section \<open>\<open>String.prototype.match\<close> with a global pattern\<close>

text \<open>
  \<open>CREDIT_CARD\<close> carries the \<open>g\<close> flag, so the pattern object has a \<open>lastIndex\<close> that
  outlives a call. \<open>value.match(Patterns.CREDIT_CARD)\<close> first sets \<open>lastIndex\<close> to 0 and
  then searches repeatedly: a search that finds a match sets \<open>lastIndex\<close> to its end
  (one further when the match is empty), the search that fails sets it to 0 and ends
  the loop. \<open>matchLoop r s lastIndex\<close> is this loop from the current \<open>lastIndex\<close>: the
  matched substrings in order, and the \<open>lastIndex\<close> left behind.
\<close>

function matchLoop :: "regex \<Rightarrow> string \<Rightarrow> nat \<Rightarrow> string list \<times> nat" where
  "matchLoop r s lastIndex =
     (case execFrom r s lastIndex of
        None \<Rightarrow> ([], 0)
      | Some (i, e) \<Rightarrow>
          (case matchLoop r s (if e = i then e + 1 else e) of
             (A, li) \<Rightarrow> (substring s i e # A, li)))"
  by pat_completeness auto
termination
proof (relation "measure (\<lambda>(r, s, li). Suc (length s) - li)")
  show "wf (measure (\<lambda>(r, s, li). Suc (length s) - li))" by simp
next
  fix r s lastIndex x2 i e
  assume "execFrom r s lastIndex = Some x2" "(i, e) = x2"
  then have "execFrom r s lastIndex = Some (i, e)" by simp
  from execFrom_bounds [OF this]
  have "lastIndex < (if e = i then e + 1 else e) \<and> lastIndex \<le> length s" by auto
  then show "((r, s, if e = i then e + 1 else e), r, s, lastIndex)
        \<in> measure (\<lambda>(r, s, li). Suc (length s) - li)"
    by (simp del: One_nat_def) arith
qed

declare matchLoop.simps [simp del]

text \<open>
  The result of \<open>match\<close> is \<open>null\<close> (\<open>None\<close>) when nothing matched. The \<open>lastIndex\<close> the
  pattern object had before the call is overwritten, not read.
\<close>

definition String_match :: "regex \<Rightarrow> nat \<Rightarrow> string \<Rightarrow> string list option \<times> nat" where
  "String_match r lastIndex s =
     (case matchLoop r s 0 of
        (A, li) \<Rightarrow> (if A = [] then None else Some A, li))"

section \<open>The risk engine\<close>

datatype RiskLevel = IGNORE | LOW | MEDIUM | HIGH

text \<open>The numbers of the \<open>RiskLevels\<close> table.\<close>

fun RiskLevels :: "RiskLevel \<Rightarrow> nat" where
  "RiskLevels IGNORE = 0"
| "RiskLevels LOW = 1"
| "RiskLevels MEDIUM = 2"
| "RiskLevels HIGH = 3"

text \<open>
  What \<open>calculateRisk\<close> reads of the element: \<open>None\<close> is a property that is undefined
  (or, for \<open>getAttribute('aria-label')\<close>, \<open>null\<close>).
\<close>

record element =
  el_name :: "string option"
  el_id :: "string option"
  el_className :: "string option"
  el_placeholder :: "string option"
  el_ariaLabel :: "string option"
  el_type :: "string option"

text \<open>The object \<open>calculateRisk\<close> returns; the early return for short values has no
  \<open>reason\<close> and no \<open>type\<close>.\<close>

record risk =
  score :: int
  level :: RiskLevel
  reason :: "string option"
  type :: "string option"

text \<open>The local variables \<open>score\<close>, \<open>detectionType\<close> and \<open>reasons\<close>.\<close>

record vars =
  sc :: int
  detectionType :: string
  reasons :: "string list"

text \<open>\<^verbatim>\<open>(x || '')\<close>\<close>

definition orEmpty :: "string option \<Rightarrow> string" where
  "orEmpty x = (case x of None \<Rightarrow> [] | Some t \<Rightarrow> t)"

definition contextOf :: "element \<Rightarrow> string" where
  "contextOf element =
     toLowerCase
       (orEmpty (el_name element) @ '' '' @ orEmpty (el_id element) @ '' '' @
        orEmpty (el_className element) @ '' '' @ orEmpty (el_placeholder element) @ '' '' @
        orEmpty (el_ariaLabel element))"

text \<open>
  The test of one candidate in the loop over \<open>ccMatches\<close>:
  \<^verbatim>\<open>clean.length >= 13 && clean.length <= 19 && luhnCheck(clean)\<close>.
\<close>

definition cardValid :: "string \<Rightarrow> bool" where
  "cardValid m =
     (let clean = stripSeparators m
      in 13 \<le> length clean \<and> length clean \<le> 19 \<and> luhnCheck clean)"

text \<open>The loop \<^verbatim>\<open>for (const match of ccMatches)\<close>, left at the first valid candidate.\<close>

fun scanMatches :: "string list \<Rightarrow> vars \<Rightarrow> vars" where
  "scanMatches [] v = v"
| "scanMatches (m # ms) v =
     (if cardValid m
      then v\<lparr>sc := sc v + 80, detectionType := ''Credit Card'',
             reasons := reasons v @ [''Likely credit card pattern matches'']\<rparr>
      else scanMatches ms v)"

definition creditCardStep :: "string list option \<Rightarrow> vars \<Rightarrow> vars" where
  "creditCardStep ccMatches v =
     (case ccMatches of None \<Rightarrow> v | Some ms \<Rightarrow> scanMatches ms v)"

definition aadhaarStep :: "string \<Rightarrow> vars \<Rightarrow> vars" where
  "aadhaarStep val v =
     (if detectionType v = [] \<and> test AADHAAR val
      then v\<lparr>sc := sc v + 75, detectionType := ''Aadhaar Number'',
             reasons := reasons v @ [''Aadhaar format detected'']\<rparr>
      else v)"

definition apiKeyStep :: "string \<Rightarrow> vars \<Rightarrow> vars" where
  "apiKeyStep val v =
     (if test API_KEY val
      then v\<lparr>sc := sc v + 85,
             detectionType :=
               (if detectionType v = [] \<or> detectionType v = ''Aadhaar Number''
                then ''API Key / Token'' else detectionType v),
             reasons := reasons v @ [''High-entropy secret pattern detected'']\<rparr>
      else v)"

definition panStep :: "string \<Rightarrow> vars \<Rightarrow> vars" where
  "panStep val v =
     (if test PAN val
      then v\<lparr>sc := sc v + 50,
             detectionType := (if detectionType v = [] then ''PAN Number'' else detectionType v),
             reasons := reasons v @ [''Tax ID format detected'']\<rparr>
      else v)"

definition upiStep :: "string \<Rightarrow> vars \<Rightarrow> vars" where
  "upiStep val v =
     (if test UPI val
      then v\<lparr>sc := sc v + 40,
             detectionType := (if detectionType v = [] then ''UPI ID'' else detectionType v)\<rparr>
      else v)"

definition emailStep :: "string \<Rightarrow> vars \<Rightarrow> vars" where
  "emailStep val v =
     (if test EMAIL val
      then v\<lparr>sc := sc v + 35,
             detectionType :=
               (if detectionType v = [] then ''Email Address'' else detectionType v)\<rparr>
      else v)"

definition phoneStep :: "string \<Rightarrow> vars \<Rightarrow> vars" where
  "phoneStep val v =
     (if test PHONE val
      then v\<lparr>sc := sc v + 35,
             detectionType :=
               (if detectionType v = [] then ''Phone Number'' else detectionType v)\<rparr>
      else v)"

definition securityContext :: "string \<Rightarrow> bool" where
  "securityContext context =
     (String_includes context ''cvv'' \<or> String_includes context ''cvc'' \<or>
      String_includes context ''security'')"

definition cvvStep :: "string \<Rightarrow> string \<Rightarrow> vars \<Rightarrow> vars" where
  "cvvStep val context v =
     (if test CVV val
      then (if securityContext context
            then v\<lparr>sc := sc v + 60, detectionType := ''CVV/CVC'',
                   reasons := reasons v @ [''CVV pattern in security context'']\<rparr>
            else v)
      else v)"

definition hasHighRiskKeyword :: "string \<Rightarrow> bool" where
  "hasHighRiskKeyword context = list_ex (\<lambda>k. String_includes context k) HIGH_RISK_KEYWORDS"

definition hasMediumRiskKeyword :: "string \<Rightarrow> bool" where
  "hasMediumRiskKeyword context =
     list_ex (\<lambda>k. String_includes context k) MEDIUM_RISK_KEYWORDS"

definition highKeywordStep :: "string \<Rightarrow> vars \<Rightarrow> vars" where
  "highKeywordStep context v =
     (if hasHighRiskKeyword context
      then v\<lparr>sc := sc v + 30, reasons := reasons v @ [''Sensitive field label found'']\<rparr>
      else v)"

definition mediumKeywordStep :: "string \<Rightarrow> vars \<Rightarrow> vars" where
  "mediumKeywordStep context v =
     (if hasMediumRiskKeyword context then v\<lparr>sc := sc v + 15\<rparr> else v)"

text \<open>\<open>protocol\<close> is \<open>window.location.protocol\<close>.\<close>

definition protocolStep :: "string \<Rightarrow> vars \<Rightarrow> vars" where
  "protocolStep protocol v =
     (if protocol \<noteq> ''https:''
      then v\<lparr>sc := sc v + 10, reasons := reasons v @ [''Page is not HTTPS'']\<rparr>
      else v)"

definition finalLevel :: "int \<Rightarrow> RiskLevel" where
  "finalLevel s =
     (if s \<ge> 61 then HIGH else if s \<ge> 31 then MEDIUM else if s \<ge> 15 then LOW else IGNORE)"

text \<open>
  The statements of \<open>calculateRisk\<close> after the password test, in the order of the
  source, from the result \<open>ccMatches\<close> of the card search.
\<close>

definition detect :: "string list option \<Rightarrow> string \<Rightarrow> string \<Rightarrow> string \<Rightarrow> vars" where
  "detect ccMatches val context protocol =
     (let v0 = \<lparr>sc = 0, detectionType = [], reasons = []\<rparr>;
          v1 = creditCardStep ccMatches v0;
          v2 = aadhaarStep val v1;
          v3 = apiKeyStep val v2;
          v4 = panStep val v3;
          v5 = upiStep val v4;
          v6 = emailStep val v5;
          v7 = phoneStep val v6;
          v8 = cvvStep val context v7;
          v9 = highKeywordStep context v8;
          v10 = mediumKeywordStep context v9
      in protocolStep protocol v10)"

definition result :: "vars \<Rightarrow> risk" where
  "result v =
     \<lparr>score = min (sc v) 100,
      level = finalLevel (sc v),
      reason = Some (join (reasons v) '', ''),
      type = Some (if detectionType v = [] then ''Sensitive Data'' else detectionType v)\<rparr>"

text \<open>
  \<open>calculateRisk lastIndex val element protocol\<close>: the call \<open>calculateRisk(value, element)\<close>
  on a page with \<open>window.location.protocol = protocol\<close>, when the \<open>lastIndex\<close> of
  \<open>Patterns.CREDIT_CARD\<close> is \<open>lastIndex\<close> before the call. It returns the object of the
  source and the \<open>lastIndex\<close> after the call.
\<close>

definition calculateRisk :: "nat \<Rightarrow> string \<Rightarrow> element \<Rightarrow> string \<Rightarrow> risk \<times> nat" where
  "calculateRisk lastIndex val element protocol =
     (if val = [] \<or> length val < 3
      then (\<lparr>score = 0, level = IGNORE, reason = None, type = None\<rparr>, lastIndex)
      else
        let context = contextOf element
        in if el_type element = Some ''password''
           then (\<lparr>score = 90, level = HIGH, reason = Some ''Password field detected'',
                  type = Some ''Password''\<rparr>, lastIndex)
           else
             case String_match CREDIT_CARD lastIndex val of
               (ccMatches, lastIndex') \<Rightarrow>
                 (result (detect ccMatches val context protocol), lastIndex'))"

section \<open>Notions used in the statements\<close>

text \<open>
  \<open>cardFound ccMatches\<close>: some candidate of the card search passes the test of the loop.
  \<open>field n t\<close> is an element with name \<open>n\<close> and type \<open>t\<close> and no other attribute.
  \<open>tierOfScore\<close> is the tier policy in the words of the specification: HIGH from 61,
  MEDIUM from 31 to 60, LOW from 15 to 30, IGNORE otherwise. \<open>boost b k\<close> is the
  contribution \<open>k\<close> of a signal that fires when \<open>b\<close> holds.
\<close>

definition cardFound :: "string list option \<Rightarrow> bool" where
  "cardFound ccMatches = (case ccMatches of None \<Rightarrow> False | Some ms \<Rightarrow> list_ex cardValid ms)"

definition field :: "string \<Rightarrow> string \<Rightarrow> element" where
  "field n t =
     \<lparr>el_name = Some n, el_id = None, el_className = None, el_placeholder = None,
      el_ariaLabel = None, el_type = Some t\<rparr>"

definition tierOfScore :: "int \<Rightarrow> RiskLevel" where
  "tierOfScore s =
     (if s \<ge> 61 then HIGH
      else if 31 \<le> s \<and> s \<le> 60 then MEDIUM
      else if 15 \<le> s \<and> s \<le> 30 then LOW
      else IGNORE)"

definition boost :: "bool \<Rightarrow> int \<Rightarrow> int" where
  "boost b k = (if b then k else 0)"





section \<open>The score and the steps\<close>

lemma scanMatches_eq:
  "scanMatches ms v =
     (if list_ex cardValid ms
      then v\<lparr>sc := sc v + 80, detectionType := ''Credit Card'',
             reasons := reasons v @ [''Likely credit card pattern matches'']\<rparr>
      else v)"
  by (induction ms) simp_all

lemma creditCardStep_eq:
  "creditCardStep ccMatches v =
     (if cardFound ccMatches
      then v\<lparr>sc := sc v + 80, detectionType := ''Credit Card'',
             reasons := reasons v @ [''Likely credit card pattern matches'']\<rparr>
      else v)"
  by (simp add: creditCardStep_def cardFound_def scanMatches_eq split: option.splits)

lemma sc_creditCardStep: "sc (creditCardStep cc v) = sc v + boost (cardFound cc) 80"
  by (simp add: creditCardStep_eq boost_def)

lemma dt_creditCardStep:
  "detectionType (creditCardStep cc v) = (if cardFound cc then ''Credit Card'' else detectionType v)"
  by (simp add: creditCardStep_eq)

lemma sc_aadhaarStep:
  "sc (aadhaarStep val v) = sc v + boost (detectionType v = [] \<and> test AADHAAR val) 75"
  by (simp add: aadhaarStep_def boost_def)

lemma sc_apiKeyStep: "sc (apiKeyStep val v) = sc v + boost (test API_KEY val) 85"
  by (simp add: apiKeyStep_def boost_def)

lemma sc_panStep: "sc (panStep val v) = sc v + boost (test PAN val) 50"
  by (simp add: panStep_def boost_def)

lemma sc_upiStep: "sc (upiStep val v) = sc v + boost (test UPI val) 40"
  by (simp add: upiStep_def boost_def)

lemma sc_emailStep: "sc (emailStep val v) = sc v + boost (test EMAIL val) 35"
  by (simp add: emailStep_def boost_def)

lemma sc_phoneStep: "sc (phoneStep val v) = sc v + boost (test PHONE val) 35"
  by (simp add: phoneStep_def boost_def)

lemma sc_cvvStep:
  "sc (cvvStep val context v) = sc v + boost (test CVV val \<and> securityContext context) 60"
  by (simp add: cvvStep_def boost_def)

lemma sc_highKeywordStep:
  "sc (highKeywordStep context v) = sc v + boost (hasHighRiskKeyword context) 30"
  by (simp add: highKeywordStep_def boost_def)

lemma sc_mediumKeywordStep:
  "sc (mediumKeywordStep context v) = sc v + boost (hasMediumRiskKeyword context) 15"
  by (simp add: mediumKeywordStep_def boost_def)

lemma sc_protocolStep:
  "sc (protocolStep protocol v) = sc v + boost (protocol \<noteq> ''https:'') 10"
  by (simp add: protocolStep_def boost_def)

lemmas sc_steps = sc_creditCardStep sc_aadhaarStep sc_apiKeyStep sc_panStep sc_upiStep
  sc_emailStep sc_phoneStep sc_cvvStep sc_highKeywordStep sc_mediumKeywordStep sc_protocolStep

lemma sc_detect:
  "sc (detect ccMatches val context protocol) =
     boost (cardFound ccMatches) 80
     + boost (\<not> cardFound ccMatches \<and> test AADHAAR val) 75
     + boost (test API_KEY val) 85
     + boost (test PAN val) 50
     + boost (test UPI val) 40
     + boost (test EMAIL val) 35
     + boost (test PHONE val) 35
     + boost (test CVV val \<and> securityContext context) 60
     + boost (hasHighRiskKeyword context) 30
     + boost (hasMediumRiskKeyword context) 15
     + boost (protocol \<noteq> ''https:'') 10"
proof -
  have "(detectionType (creditCardStep ccMatches \<lparr>sc = 0, detectionType = [], reasons = []\<rparr>) = [])
        = (\<not> cardFound ccMatches)"
    by (simp add: dt_creditCardStep)
  then show ?thesis
    by (simp only: detect_def Let_def sc_steps vars.simps add_0)
qed

lemma boost_nonneg: "0 \<le> k \<Longrightarrow> 0 \<le> boost b k"
  by (simp add: boost_def)

lemma sc_detect_nonneg: "0 \<le> sc (detect ccMatches val context protocol)"
  unfolding sc_detect by (intro add_nonneg_nonneg boost_nonneg) simp_all

lemma level_result: "level (result v) = tierOfScore (score (result v))"
  by (simp add: result_def finalLevel_def tierOfScore_def)

lemma dt_aadhaarStep:
  "detectionType (aadhaarStep val v) =
     (if detectionType v = [] \<and> test AADHAAR val then ''Aadhaar Number'' else detectionType v)"
  by (simp add: aadhaarStep_def)

lemma dt_apiKeyStep:
  "detectionType (apiKeyStep val v) =
     (if test API_KEY val \<and> (detectionType v = [] \<or> detectionType v = ''Aadhaar Number'')
      then ''API Key / Token'' else detectionType v)"
  by (simp add: apiKeyStep_def)

lemma dt_panStep:
  "detectionType (panStep val v) =
     (if test PAN val \<and> detectionType v = [] then ''PAN Number'' else detectionType v)"
  by (simp add: panStep_def)

lemma dt_upiStep:
  "detectionType (upiStep val v) =
     (if test UPI val \<and> detectionType v = [] then ''UPI ID'' else detectionType v)"
  by (simp add: upiStep_def)

lemma dt_emailStep:
  "detectionType (emailStep val v) =
     (if test EMAIL val \<and> detectionType v = [] then ''Email Address'' else detectionType v)"
  by (simp add: emailStep_def)

lemma dt_phoneStep:
  "detectionType (phoneStep val v) =
     (if test PHONE val \<and> detectionType v = [] then ''Phone Number'' else detectionType v)"
  by (simp add: phoneStep_def)

lemma dt_cvvStep:
  "detectionType (cvvStep val context v) =
     (if test CVV val \<and> securityContext context then ''CVV/CVC'' else detectionType v)"
  by (simp add: cvvStep_def)

lemma dt_highKeywordStep: "detectionType (highKeywordStep context v) = detectionType v"
  by (simp add: highKeywordStep_def)

lemma dt_mediumKeywordStep: "detectionType (mediumKeywordStep context v) = detectionType v"
  by (simp add: mediumKeywordStep_def)

lemma dt_protocolStep: "detectionType (protocolStep protocol v) = detectionType v"
  by (simp add: protocolStep_def)

lemmas dt_steps = dt_creditCardStep dt_aadhaarStep dt_apiKeyStep dt_panStep dt_upiStep
  dt_emailStep dt_phoneStep dt_cvvStep dt_highKeywordStep dt_mediumKeywordStep dt_protocolStep

lemma dt_detect:
  "detectionType (detect ccMatches val context protocol) =
     (if test CVV val \<and> securityContext context then ''CVV/CVC''
      else if cardFound ccMatches then ''Credit Card''
      else if test API_KEY val then ''API Key / Token''
      else if test AADHAAR val then ''Aadhaar Number''
      else if test PAN val then ''PAN Number''
      else if test UPI val then ''UPI ID''
      else if test EMAIL val then ''Email Address''
      else if test PHONE val then ''Phone Number''
      else [])"
proof -
  define v1 where "v1 = creditCardStep ccMatches \<lparr>sc = 0, detectionType = [], reasons = []\<rparr>"
  define v2 where "v2 = aadhaarStep val v1"
  define v3 where "v3 = apiKeyStep val v2"
  define v4 where "v4 = panStep val v3"
  define v5 where "v5 = upiStep val v4"
  define v6 where "v6 = emailStep val v5"
  define v7 where "v7 = phoneStep val v6"
  have d1: "detectionType v1 = (if cardFound ccMatches then ''Credit Card'' else [])"
    by (simp add: v1_def dt_creditCardStep)
  have d2: "detectionType v2 =
      (if cardFound ccMatches then ''Credit Card''
       else if test AADHAAR val then ''Aadhaar Number'' else [])"
    by (simp add: v2_def dt_aadhaarStep d1)
  have d3: "detectionType v3 =
      (if cardFound ccMatches then ''Credit Card''
       else if test API_KEY val then ''API Key / Token''
       else if test AADHAAR val then ''Aadhaar Number'' else [])"
    by (simp add: v3_def dt_apiKeyStep d2)
  have d4: "detectionType v4 =
      (if cardFound ccMatches then ''Credit Card''
       else if test API_KEY val then ''API Key / Token''
       else if test AADHAAR val then ''Aadhaar Number''
       else if test PAN val then ''PAN Number'' else [])"
    by (simp add: v4_def dt_panStep d3)
  have d5: "detectionType v5 =
      (if cardFound ccMatches then ''Credit Card''
       else if test API_KEY val then ''API Key / Token''
       else if test AADHAAR val then ''Aadhaar Number''
       else if test PAN val then ''PAN Number''
       else if test UPI val then ''UPI ID'' else [])"
    by (simp add: v5_def dt_upiStep d4)
  have d6: "detectionType v6 =
      (if cardFound ccMatches then ''Credit Card''
       else if test API_KEY val then ''API Key / Token''
       else if test AADHAAR val then ''Aadhaar Number''
       else if test PAN val then ''PAN Number''
       else if test UPI val then ''UPI ID''
       else if test EMAIL val then ''Email Address'' else [])"
    by (simp add: v6_def dt_emailStep d5)
  have d7: "detectionType v7 =
      (if cardFound ccMatches then ''Credit Card''
       else if test API_KEY val then ''API Key / Token''
       else if test AADHAAR val then ''Aadhaar Number''
       else if test PAN val then ''PAN Number''
       else if test UPI val then ''UPI ID''
       else if test EMAIL val then ''Email Address''
       else if test PHONE val then ''Phone Number'' else [])"
    by (simp add: v7_def dt_phoneStep d6)
  have "detect ccMatches val context protocol =
      protocolStep protocol (mediumKeywordStep context (highKeywordStep context
        (cvvStep val context v7)))"
    by (simp only: detect_def Let_def v1_def v2_def v3_def v4_def v5_def v6_def v7_def)
  then show ?thesis
    by (simp only: dt_protocolStep dt_mediumKeywordStep dt_highKeywordStep dt_cvvStep d7)
qed

lemma calculateRisk_signals:
  "3 \<le> length val \<Longrightarrow> el_type element \<noteq> Some ''password'' \<Longrightarrow>
   calculateRisk lastIndex val element protocol =
     (result (detect (fst (String_match CREDIT_CARD lastIndex val)) val (contextOf element)
                protocol),
      snd (String_match CREDIT_CARD lastIndex val))"
  by (auto simp: calculateRisk_def Let_def split: prod.splits)


lemma type_result:
  "type (result v) = Some (if detectionType v = [] then ''Sensitive Data'' else detectionType v)"
  by (simp add: result_def)

lemma score_result: "score (result v) = min (sc v) 100"
  by (simp add: result_def)

lemma field_type: "el_type (field n t) = Some t"
  by (simp add: field_def)

section \<open>The checksum and the card candidates\<close>











section \<open>Early returns\<close>

text \<open>
  C7. A value shorter than 3 characters (the empty value included) returns score 0 and
  level IGNORE whatever the element and the protocol are; the object has no reason and no
  type, and the card search is not run (\<open>lastIndex\<close> is left as it was).
\<close>

theorem short_value_ignored:
  "length val < 3 \<Longrightarrow>
   calculateRisk lastIndex val element protocol =
     (\<lparr>score = 0, level = IGNORE, reason = None, type = None\<rparr>, lastIndex)"
  by (simp add: calculateRisk_def)

theorem short_value_ignored_witness:
  "length ''ab'' < 3 \<and>
   calculateRisk 0 ''ab'' (field ''cvv'' ''password'') ''http:'' =
     (\<lparr>score = 0, level = IGNORE, reason = None, type = None\<rparr>, 0)"
  using short_value_ignored [of "''ab''" 0 "field ''cvv'' ''password''" "''http:''"] by simp

text \<open>
  C1, as stated, fails: the length test comes before the password test, so the value
  \<open>ab\<close> in a password field returns score 0 and level IGNORE, with no type.
\<close>

theorem password_short_value_counterexample:
  "el_type (field ''pin'' ''password'') = Some ''password'' \<and>
   score (fst (calculateRisk 0 ''ab'' (field ''pin'' ''password'') ''https:'')) = 0 \<and>
   level (fst (calculateRisk 0 ''ab'' (field ''pin'' ''password'') ''https:'')) = IGNORE \<and>
   type (fst (calculateRisk 0 ''ab'' (field ''pin'' ''password'') ''https:'')) = None"
  by (simp add: calculateRisk_def field_def)

text \<open>
  C1, amended. For every value of at least 3 characters in a field of type \<open>password\<close>
  the result is score 90, level HIGH, type \<open>Password\<close>, reason \<open>Password field detected\<close>,
  whatever the value, the other attributes and the protocol are; no signal is
  evaluated (the card search is not run, \<open>lastIndex\<close> is left as it was).
\<close>

theorem password_field:
  "3 \<le> length val \<Longrightarrow> el_type element = Some ''password'' \<Longrightarrow>
   calculateRisk lastIndex val element protocol =
     (\<lparr>score = 90, level = HIGH, reason = Some ''Password field detected'',
       type = Some ''Password''\<rparr>, lastIndex)"
  by (auto simp: calculateRisk_def Let_def)

theorem password_field_witness:
  "3 \<le> length ''abc'' \<and> el_type (field ''pin'' ''password'') = Some ''password'' \<and>
   calculateRisk 0 ''abc'' (field ''pin'' ''password'') ''https:'' =
     (\<lparr>score = 90, level = HIGH, reason = Some ''Password field detected'',
       type = Some ''Password''\<rparr>, 0)"
  using password_field [of "''abc''" "field ''pin'' ''password''" 0 "''https:''"]
  by (simp add: field_def)

section \<open>Tier and clamp\<close>

text \<open>
  C3. The mapping of the source sends 14, 15, 30, 31, 60, 61 to IGNORE, LOW, LOW, MEDIUM,
  MEDIUM, HIGH and agrees with the tier policy of the specification on every score; and
  on every call the returned level is that policy applied to the returned score (the
  level is computed before the clamp, and a clamped score is 100, which is HIGH too):
  it is HIGH iff the score is at least 61, MEDIUM iff it lies between 31 and 60, LOW iff
  it lies between 15 and 30, and IGNORE iff it is below 15.
\<close>

theorem tier_thresholds:
  "finalLevel 14 = IGNORE \<and> finalLevel 15 = LOW \<and> finalLevel 30 = LOW \<and>
   finalLevel 31 = MEDIUM \<and> finalLevel 60 = MEDIUM \<and> finalLevel 61 = HIGH \<and>
   finalLevel s = tierOfScore s \<and>
   level (fst (calculateRisk lastIndex val element protocol)) =
     tierOfScore (score (fst (calculateRisk lastIndex val element protocol))) \<and>
   (level (fst (calculateRisk lastIndex val element protocol)) = HIGH) =
     (61 \<le> score (fst (calculateRisk lastIndex val element protocol))) \<and>
   (level (fst (calculateRisk lastIndex val element protocol)) = MEDIUM) =
     (31 \<le> score (fst (calculateRisk lastIndex val element protocol)) \<and>
      score (fst (calculateRisk lastIndex val element protocol)) \<le> 60) \<and>
   (level (fst (calculateRisk lastIndex val element protocol)) = LOW) =
     (15 \<le> score (fst (calculateRisk lastIndex val element protocol)) \<and>
      score (fst (calculateRisk lastIndex val element protocol)) \<le> 30) \<and>
   (level (fst (calculateRisk lastIndex val element protocol)) = IGNORE) =
     (score (fst (calculateRisk lastIndex val element protocol)) < 15)"
proof -
  have tier: "level (fst (calculateRisk lastIndex val element protocol)) =
     tierOfScore (score (fst (calculateRisk lastIndex val element protocol)))"
    by (auto simp: calculateRisk_def Let_def level_result tierOfScore_def split: prod.splits)
  have marks: "finalLevel 14 = IGNORE \<and> finalLevel 15 = LOW \<and> finalLevel 30 = LOW \<and>
      finalLevel 31 = MEDIUM \<and> finalLevel 60 = MEDIUM \<and> finalLevel 61 = HIGH"
    by (simp add: finalLevel_def)
  have same: "finalLevel s = tierOfScore s"
    by (simp add: finalLevel_def tierOfScore_def)
  show ?thesis
    unfolding tier using marks same by (auto simp: tierOfScore_def)
qed


section \<open>No memory between calls\<close>

text \<open>
  C9. The only state a call can see of earlier calls is the \<open>lastIndex\<close> of the global
  pattern \<open>CREDIT_CARD\<close>. The returned object does not depend on it: calls with the same
  value, element and protocol return the same score, level, reason and type, whatever
  \<open>lastIndex\<close> earlier calls have left.
\<close>

theorem no_hidden_state:
  "fst (calculateRisk lastIndex val element protocol) =
   fst (calculateRisk lastIndex' val element protocol)"
  by (simp add: calculateRisk_def String_match_def Let_def split: prod.splits)

section \<open>Overlapping patterns\<close>

lemma email_facts:
  "String_match CREDIT_CARD li ''name@example.com'' = (None, 0)"
  "\<not> test AADHAAR ''name@example.com''"
  "\<not> test API_KEY ''name@example.com''"
  "\<not> test PAN ''name@example.com''"
  "test UPI ''name@example.com''"
  "test EMAIL ''name@example.com''"
  "\<not> test PHONE ''name@example.com''"
  "\<not> test CVV ''name@example.com''"
  by code_simp+

text \<open>
  C10. The value \<open>name@example.com\<close> matches the email pattern and the UPI pattern.
  The UPI step runs first, adds 40 and sets the type; the email step adds 35 and
  leaves the type. So in every field that is not a password field the type is
  \<open>UPI ID\<close>, the score is at least 75 and the level is HIGH.
\<close>

theorem plain_email_is_upi:
  "el_type element \<noteq> Some ''password'' \<Longrightarrow>
   test EMAIL ''name@example.com'' \<and> test UPI ''name@example.com'' \<and>
   sc (upiStep ''name@example.com'' v) = sc v + 40 \<and>
   sc (emailStep ''name@example.com'' v) = sc v + 35 \<and>
   type (fst (calculateRisk lastIndex ''name@example.com'' element protocol)) = Some ''UPI ID'' \<and>
   75 \<le> score (fst (calculateRisk lastIndex ''name@example.com'' element protocol)) \<and>
   level (fst (calculateRisk lastIndex ''name@example.com'' element protocol)) = HIGH"
proof -
  assume np: "el_type element \<noteq> Some ''password''"
  let ?v = "detect None ''name@example.com'' (contextOf element) protocol"
  have cr: "fst (calculateRisk lastIndex ''name@example.com'' element protocol) = result ?v"
    using calculateRisk_signals [OF _ np, of "''name@example.com''" lastIndex protocol]
    by (simp add: email_facts)
  have dt: "detectionType ?v = ''UPI ID''"
    by (simp add: dt_detect email_facts cardFound_def)
  have "sc ?v = 75 + boost (hasHighRiskKeyword (contextOf element)) 30
      + boost (hasMediumRiskKeyword (contextOf element)) 15 + boost (protocol \<noteq> ''https:'') 10"
    by (simp add: sc_detect email_facts cardFound_def boost_def)
  then have s75: "75 \<le> sc ?v" by (simp add: boost_def)
  show ?thesis
    using s75 by (simp add: cr type_result score_result dt email_facts sc_upiStep sc_emailStep
        boost_def result_def finalLevel_def)
qed

theorem plain_email_is_upi_witness:
  "el_type (field ''contact'' ''text'') \<noteq> Some ''password'' \<and>
   calculateRisk 0 ''name@example.com'' (field ''contact'' ''text'') ''https:'' =
     (\<lparr>score = 75, level = HIGH, reason = Some [], type = Some ''UPI ID''\<rparr>, 0)"
proof -
  have np: "el_type (field ''contact'' ''text'') \<noteq> Some ''password''"
    by (simp add: field_def)
  have "calculateRisk 0 ''name@example.com'' (field ''contact'' ''text'') ''https:'' =
     (\<lparr>score = 75, level = HIGH, reason = Some [], type = Some ''UPI ID''\<rparr>, 0)"
    by code_simp
  with np plain_email_is_upi [OF np, where lastIndex = 0 and protocol = "''https:''"]
  show ?thesis by simp
qed

section \<open>The CVV signal\<close>

lemma cvv123_facts:
  "test CVV ''123''"
  "calculateRisk 0 ''123'' (field ''cvv'' ''text'') ''https:'' =
     (\<lparr>score = 90, level = HIGH,
       reason = Some ''CVV pattern in security context, Sensitive field label found'',
       type = Some ''CVV/CVC''\<rparr>, 0)"
  "calculateRisk 0 ''123'' (field ''comment'' ''text'') ''https:'' =
     (\<lparr>score = 0, level = IGNORE, reason = Some [], type = Some ''Sensitive Data''\<rparr>, 0)"
  "String_includes (contextOf (field ''cvv'' ''text'')) ''cvv''"
  "\<not> String_includes (contextOf (field ''comment'' ''text'')) ''cvv''"
  "\<not> String_includes (contextOf (field ''comment'' ''text'')) ''cvc''"
  "\<not> String_includes (contextOf (field ''comment'' ''text'')) ''security''"
  by code_simp+

lemma x123_facts:
  "String_includes ''x123'' ''123''"
  "list_all isDigit ''123''"
  "String_includes (contextOf (field ''cvv'' ''text'')) ''cvv''"
  "\<not> test CVV ''x123''"
  "calculateRisk 0 ''x123'' (field ''cvv'' ''text'') ''https:'' =
     (\<lparr>score = 30, level = LOW, reason = Some ''Sensitive field label found'',
       type = Some ''Sensitive Data''\<rparr>, 0)"
  by code_simp+

text \<open>
  C4, as stated, fails: the value \<open>x123\<close> contains the 3-digit sequence \<open>123\<close> and the
  context of a field named \<open>cvv\<close> contains \<open>cvv\<close>, yet the CVV step changes nothing. The
  pattern \<^verbatim>\<open>\b\d{3,4}\b\<close> asks for a word boundary on both sides of the digits, and there
  is none between \<open>x\<close> and \<open>1\<close>. The call returns score 30 (the keyword boost alone) and
  type \<open>Sensitive Data\<close>.
\<close>

theorem cvv_inside_word_counterexample:
  "String_includes ''x123'' ''123'' \<and> list_all isDigit ''123'' \<and> length ''123'' = 3 \<and>
   String_includes (contextOf (field ''cvv'' ''text'')) ''cvv'' \<and>
   el_type (field ''cvv'' ''text'') \<noteq> Some ''password'' \<and>
   \<not> test CVV ''x123'' \<and>
   cvvStep ''x123'' (contextOf (field ''cvv'' ''text''))
       \<lparr>sc = 0, detectionType = [], reasons = []\<rparr>
     = \<lparr>sc = 0, detectionType = [], reasons = []\<rparr> \<and>
   score (fst (calculateRisk 0 ''x123'' (field ''cvv'' ''text'') ''https:'')) = 30 \<and>
   type (fst (calculateRisk 0 ''x123'' (field ''cvv'' ''text'') ''https:''))
     = Some ''Sensitive Data''"
proof -
  have np: "el_type (field ''cvv'' ''text'') \<noteq> Some ''password''"
    by (simp add: field_type)
  have quiet: "cvvStep ''x123'' (contextOf (field ''cvv'' ''text''))
       \<lparr>sc = 0, detectionType = [], reasons = []\<rparr>
     = \<lparr>sc = 0, detectionType = [], reasons = []\<rparr>"
    by (simp add: cvvStep_def x123_facts(4))
  have len: "length ''123'' = 3" by simp
  have s: "score (fst (calculateRisk 0 ''x123'' (field ''cvv'' ''text'') ''https:'')) = 30"
    and t: "type (fst (calculateRisk 0 ''x123'' (field ''cvv'' ''text'') ''https:''))
      = Some ''Sensitive Data''"
    by (simp_all add: x123_facts(5))
  from x123_facts(1) x123_facts(2) len x123_facts(3) np x123_facts(4) quiet s t
  show ?thesis by (intro conjI)
qed

text \<open>
  C4, amended. Let the value hold a run of 3 or 4 digits with a word boundary on both
  sides, that is, match the CVV pattern \<^verbatim>\<open>\b\d{3,4}\b\<close> (as \<open>123\<close> does), in a field that is
  not a password field. If the context contains \<open>cvv\<close>, \<open>cvc\<close> or \<open>security\<close>, the CVV
  step adds 60 to whatever score was accumulated and sets the type to \<open>CVV/CVC\<close> whatever
  type was set before; no later statement changes the type, so the returned type is
  \<open>CVV/CVC\<close> and the returned score is at least 60. If the context contains none of the
  three words (as the context of a field named \<open>comment\<close>), the CVV step changes nothing
  and the returned type is not \<open>CVV/CVC\<close>.
\<close>

theorem cvv_context_sensitivity:
  assumes "test CVV val" and "el_type element \<noteq> Some ''password''"
  shows
    "(String_includes (contextOf element) ''cvv'' \<or> String_includes (contextOf element) ''cvc'' \<or>
      String_includes (contextOf element) ''security'' \<longrightarrow>
        cvvStep val (contextOf element) v =
          v\<lparr>sc := sc v + 60, detectionType := ''CVV/CVC'',
            reasons := reasons v @ [''CVV pattern in security context'']\<rparr> \<and>
        type (fst (calculateRisk lastIndex val element protocol)) = Some ''CVV/CVC'' \<and>
        60 \<le> score (fst (calculateRisk lastIndex val element protocol))) \<and>
     (\<not> (String_includes (contextOf element) ''cvv'' \<or>
         String_includes (contextOf element) ''cvc'' \<or>
         String_includes (contextOf element) ''security'') \<longrightarrow>
        cvvStep val (contextOf element) v = v \<and>
        type (fst (calculateRisk lastIndex val element protocol)) \<noteq> Some ''CVV/CVC'')"
proof -
  let ?ctx = "contextOf element"
  let ?cc = "fst (String_match CREDIT_CARD lastIndex val)"
  let ?v = "detect ?cc val ?ctx protocol"
  from assms(1) have len: "3 \<le> length val" by (rule test_CVV_length)
  have cr: "fst (calculateRisk lastIndex val element protocol) = result ?v"
    using calculateRisk_signals [OF len assms(2)] by simp
  have fires: "cvvStep val ?ctx v =
          v\<lparr>sc := sc v + 60, detectionType := ''CVV/CVC'',
            reasons := reasons v @ [''CVV pattern in security context'']\<rparr> \<and>
        type (result ?v) = Some ''CVV/CVC'' \<and> 60 \<le> score (result ?v)"
    if sec: "securityContext ?ctx"
  proof -
    have "0 \<le> sc ?v - 60"
      unfolding sc_detect using assms(1) sec
      by (simp add: boost_def)
    then have "60 \<le> min (sc ?v) 100" by simp
    then show ?thesis
      using assms(1) sec by (simp add: cvvStep_def type_result score_result dt_detect)
  qed
  have quiet: "cvvStep val ?ctx v = v \<and> type (result ?v) \<noteq> Some ''CVV/CVC''"
    if nosec: "\<not> securityContext ?ctx"
    using nosec by (simp add: cvvStep_def type_result dt_detect)
  from fires quiet show ?thesis
    unfolding cr securityContext_def by blast
qed

theorem cvv_context_sensitivity_witness:
  "test CVV ''123'' \<and> el_type (field ''cvv'' ''text'') \<noteq> Some ''password'' \<and>
   el_type (field ''comment'' ''text'') \<noteq> Some ''password'' \<and>
   String_includes (contextOf (field ''cvv'' ''text'')) ''cvv'' \<and>
   \<not> (String_includes (contextOf (field ''comment'' ''text'')) ''cvv'' \<or>
      String_includes (contextOf (field ''comment'' ''text'')) ''cvc'' \<or>
      String_includes (contextOf (field ''comment'' ''text'')) ''security'') \<and>
   type (fst (calculateRisk 0 ''123'' (field ''cvv'' ''text'') ''https:'')) = Some ''CVV/CVC'' \<and>
   60 \<le> score (fst (calculateRisk 0 ''123'' (field ''cvv'' ''text'') ''https:'')) \<and>
   type (fst (calculateRisk 0 ''123'' (field ''comment'' ''text'') ''https:''))
     \<noteq> Some ''CVV/CVC'' \<and>
   score (fst (calculateRisk 0 ''123'' (field ''comment'' ''text'') ''https:'')) = 0"
proof -
  have np1: "el_type (field ''cvv'' ''text'') \<noteq> Some ''password''"
    and np2: "el_type (field ''comment'' ''text'') \<noteq> Some ''password''"
    by (simp_all add: field_def)
  note a = cvv_context_sensitivity [OF cvv123_facts(1) np1, where lastIndex = 0
      and protocol = "''https:''"]
  note b = cvv_context_sensitivity [OF cvv123_facts(1) np2, where lastIndex = 0
      and protocol = "''https:''"]
  from a b np1 np2 show ?thesis
    by (simp add: cvv123_facts)
qed

section \<open>Category priority of the secret signal\<close>

lemma both_facts:
  "test AADHAAR ''1234 5678 9012 AKIA1234567890ABCDEF''"
  "test API_KEY ''1234 5678 9012 AKIA1234567890ABCDEF''"
  "test CVV ''1234 5678 9012 AKIA1234567890ABCDEF''"
  "String_match CREDIT_CARD 0 ''1234 5678 9012 AKIA1234567890ABCDEF'' = (None, 0)"
  "securityContext (contextOf (field ''cvv'' ''text''))"
  "\<not> securityContext (contextOf (field ''note'' ''text''))"
  by code_simp+

text \<open>
  C5, as stated, fails: the value \<open>1234 5678 9012 AKIA1234567890ABCDEF\<close> matches the
  Aadhaar pattern and the secret pattern and holds no card candidate, yet in a field named
  \<open>cvv\<close> its type is \<open>CVV/CVC\<close>: the CVV step runs later and overwrites the type.
\<close>

theorem secret_category_counterexample:
  "test AADHAAR ''1234 5678 9012 AKIA1234567890ABCDEF'' \<and>
   test API_KEY ''1234 5678 9012 AKIA1234567890ABCDEF'' \<and>
   el_type (field ''cvv'' ''text'') \<noteq> Some ''password'' \<and>
   fst (String_match CREDIT_CARD 0 ''1234 5678 9012 AKIA1234567890ABCDEF'') = None \<and>
   type (fst (calculateRisk 0 ''1234 5678 9012 AKIA1234567890ABCDEF'' (field ''cvv'' ''text'')
               ''https:'')) = Some ''CVV/CVC''"
proof -
  have np: "el_type (field ''cvv'' ''text'') \<noteq> Some ''password''"
    by (simp add: field_type)
  have "type (fst (calculateRisk 0 ''1234 5678 9012 AKIA1234567890ABCDEF''
      (field ''cvv'' ''text'') ''https:'')) = Some ''CVV/CVC''"
    using calculateRisk_signals [OF _ np, of "''1234 5678 9012 AKIA1234567890ABCDEF''" 0
        "''https:''"]
    by (simp add: type_result dt_detect both_facts)
  with np show ?thesis by (simp add: both_facts)
qed

text \<open>
  C5, amended. For every value that matches both the Aadhaar pattern and the secret
  pattern, in a field that is not a password field: after the secret step the type is
  \<open>API Key / Token\<close>, not \<open>Aadhaar Number\<close>, unless a checksum-valid card candidate has set
  \<open>Credit Card\<close>, which the secret step leaves; and the returned type is that type unless
  the CVV signal fires (the value matches the CVV pattern and the context contains \<open>cvv\<close>,
  \<open>cvc\<close> or \<open>security\<close>), which makes it \<open>CVV/CVC\<close>.
\<close>

theorem secret_category_priority:
  assumes "test AADHAAR val" and "test API_KEY val"
    and "el_type element \<noteq> Some ''password''"
  shows
    "detectionType (apiKeyStep val (aadhaarStep val (creditCardStep ccMatches
        \<lparr>sc = 0, detectionType = [], reasons = []\<rparr>))) =
       (if cardFound ccMatches then ''Credit Card'' else ''API Key / Token'') \<and>
     type (fst (calculateRisk lastIndex val element protocol)) =
       Some (if test CVV val \<and>
                (String_includes (contextOf element) ''cvv'' \<or>
                 String_includes (contextOf element) ''cvc'' \<or>
                 String_includes (contextOf element) ''security'')
             then ''CVV/CVC''
             else if cardFound (fst (String_match CREDIT_CARD lastIndex val))
             then ''Credit Card''
             else ''API Key / Token'')"
proof -
  from assms(1) have len: "3 \<le> length val" by (rule test_AADHAAR_length)
  have cr: "fst (calculateRisk lastIndex val element protocol) =
      result (detect (fst (String_match CREDIT_CARD lastIndex val)) val (contextOf element)
        protocol)"
    using calculateRisk_signals [OF len assms(3)] by simp
  have "detectionType (apiKeyStep val (aadhaarStep val (creditCardStep ccMatches
        \<lparr>sc = 0, detectionType = [], reasons = []\<rparr>))) =
       (if cardFound ccMatches then ''Credit Card'' else ''API Key / Token'')"
    using assms(1,2) by (simp add: dt_apiKeyStep dt_aadhaarStep dt_creditCardStep)
  moreover have "type (fst (calculateRisk lastIndex val element protocol)) =
       Some (if test CVV val \<and> securityContext (contextOf element) then ''CVV/CVC''
             else if cardFound (fst (String_match CREDIT_CARD lastIndex val))
             then ''Credit Card''
             else ''API Key / Token'')"
    using assms(1,2) by (simp add: cr type_result dt_detect)
  ultimately show ?thesis by (simp only: securityContext_def)
qed

theorem secret_category_priority_witness:
  "test AADHAAR ''1234 5678 9012 AKIA1234567890ABCDEF'' \<and>
   test API_KEY ''1234 5678 9012 AKIA1234567890ABCDEF'' \<and>
   el_type (field ''note'' ''text'') \<noteq> Some ''password'' \<and>
   type (fst (calculateRisk 0 ''1234 5678 9012 AKIA1234567890ABCDEF'' (field ''note'' ''text'')
               ''https:'')) = Some ''API Key / Token''"
proof -
  have np: "el_type (field ''note'' ''text'') \<noteq> Some ''password''"
    by (simp add: field_type)
  from secret_category_priority [OF both_facts(1) both_facts(2) np, where lastIndex = 0
      and protocol = "''https:''" and ccMatches = None]
  show ?thesis
    using np by (simp add: both_facts cardFound_def securityContext_def [symmetric])
qed

section \<open>Monotonicity of the score\<close>

lemma boost_mono: "(b \<Longrightarrow> b') \<Longrightarrow> 0 \<le> k \<Longrightarrow> boost b k \<le> boost b' k"
  by (auto simp: boost_def)

lemma card_aadhaar_mono:
  "(c \<Longrightarrow> c') \<Longrightarrow> (a \<Longrightarrow> a') \<Longrightarrow>
   boost c 80 + boost (\<not> c \<and> a) 75 \<le> boost c' 80 + boost (\<not> c' \<and> a') 75"
  by (auto simp: boost_def)

lemma score_nonneg: "0 \<le> score (fst (calculateRisk lastIndex val element protocol))"
  by (auto simp: calculateRisk_def Let_def result_def sc_detect_nonneg split: prod.splits)

lemma step_nonneg:
  "sc v \<le> sc (creditCardStep ccMatches v)" "sc v \<le> sc (aadhaarStep val v)"
  "sc v \<le> sc (apiKeyStep val v)" "sc v \<le> sc (panStep val v)" "sc v \<le> sc (upiStep val v)"
  "sc v \<le> sc (emailStep val v)" "sc v \<le> sc (phoneStep val v)"
  "sc v \<le> sc (cvvStep val context v)" "sc v \<le> sc (highKeywordStep context v)"
  "sc v \<le> sc (mediumKeywordStep context v)" "sc v \<le> sc (protocolStep protocol v)"
  by (simp_all add: sc_steps boost_def)

text \<open>
  C6. Every step adds a non-negative amount to the score. And the returned score is
  monotone in the signals that match: take two calls on fields of the same kind (both
  password fields or neither), the second value at least as long as the first, such
  that every signal that matches in the first call matches in the second (a valid card
  candidate, each pattern, the CVV pattern in a security context, the two keyword sets,
  a protocol other than \<open>https:\<close>). Then the second score is at least the first. The
  instance below appends the email-like \<open>a@bc.de\<close> to the value \<open>hello\<close> in a field whose
  name holds the keyword \<open>password\<close>: the score goes from 30 to 65.
\<close>

theorem score_monotone:
  assumes ty: "(el_type e1 = Some ''password'') = (el_type e2 = Some ''password'')"
    and len: "length val1 \<le> length val2"
    and card: "cardFound (fst (String_match CREDIT_CARD li1 val1)) \<Longrightarrow>
               cardFound (fst (String_match CREDIT_CARD li2 val2))"
    and aadhaar: "test AADHAAR val1 \<Longrightarrow> test AADHAAR val2"
    and api: "test API_KEY val1 \<Longrightarrow> test API_KEY val2"
    and pan: "test PAN val1 \<Longrightarrow> test PAN val2"
    and upi: "test UPI val1 \<Longrightarrow> test UPI val2"
    and email: "test EMAIL val1 \<Longrightarrow> test EMAIL val2"
    and phone: "test PHONE val1 \<Longrightarrow> test PHONE val2"
    and cvv: "test CVV val1 \<and> securityContext (contextOf e1) \<Longrightarrow>
              test CVV val2 \<and> securityContext (contextOf e2)"
    and high: "hasHighRiskKeyword (contextOf e1) \<Longrightarrow> hasHighRiskKeyword (contextOf e2)"
    and medium: "hasMediumRiskKeyword (contextOf e1) \<Longrightarrow> hasMediumRiskKeyword (contextOf e2)"
    and http: "p1 \<noteq> ''https:'' \<Longrightarrow> p2 \<noteq> ''https:''"
  shows "score (fst (calculateRisk li1 val1 e1 p1)) \<le> score (fst (calculateRisk li2 val2 e2 p2)) \<and>
         sc v \<le> sc (creditCardStep ccMatches v) \<and> sc v \<le> sc (aadhaarStep val v) \<and>
         sc v \<le> sc (apiKeyStep val v) \<and> sc v \<le> sc (panStep val v) \<and>
         sc v \<le> sc (upiStep val v) \<and> sc v \<le> sc (emailStep val v) \<and>
         sc v \<le> sc (phoneStep val v) \<and> sc v \<le> sc (cvvStep val context v) \<and>
         sc v \<le> sc (highKeywordStep context v) \<and> sc v \<le> sc (mediumKeywordStep context v) \<and>
         sc v \<le> sc (protocolStep protocol v)"
proof -
  have main: "score (fst (calculateRisk li1 val1 e1 p1))
      \<le> score (fst (calculateRisk li2 val2 e2 p2))"
  proof (cases "length val1 < 3")
    case True
    then have "score (fst (calculateRisk li1 val1 e1 p1)) = 0"
      by (simp add: calculateRisk_def)
    with score_nonneg [of li2 val2 e2 p2] show ?thesis by simp
  next
    case False
    with len have l1: "3 \<le> length val1" and l2: "3 \<le> length val2" by simp_all
    show ?thesis
    proof (cases "el_type e1 = Some ''password''")
      case True
      with ty l1 l2 show ?thesis by (auto simp: calculateRisk_def Let_def)
    next
      case False
      with ty have np2: "el_type e2 \<noteq> Some ''password''" by simp
      let ?c1 = "fst (String_match CREDIT_CARD li1 val1)"
      let ?c2 = "fst (String_match CREDIT_CARD li2 val2)"
      have "sc (detect ?c1 val1 (contextOf e1) p1) \<le> sc (detect ?c2 val2 (contextOf e2) p2)"
        unfolding sc_detect
        by (intro add_mono card_aadhaar_mono boost_mono card aadhaar api pan upi email phone
            cvv high medium http) simp_all
      then show ?thesis
        by (simp add: calculateRisk_signals [OF l1 False] calculateRisk_signals [OF l2 np2]
            score_result)
    qed
  qed
  with step_nonneg show ?thesis by simp
qed

lemma hello_tests:
  "fst (String_match CREDIT_CARD 0 ''hello'') = None"
  "\<not> test AADHAAR ''hello''" "\<not> test API_KEY ''hello''" "\<not> test PAN ''hello''"
  "\<not> test UPI ''hello''" "\<not> test EMAIL ''hello''" "\<not> test PHONE ''hello''"
  "\<not> test CVV ''hello''"
  "test EMAIL ''hello a@bc.de''"
  by code_simp+

lemma hello_scores:
  "score (fst (calculateRisk 0 ''hello'' (field ''Password'' ''text'') ''https:'')) = 30"
  "score (fst (calculateRisk 0 ''hello a@bc.de'' (field ''Password'' ''text'') ''https:'')) = 65"
  by code_simp+

theorem score_monotone_witness:
  "length ''hello'' \<le> length ''hello a@bc.de'' \<and>
   \<not> test EMAIL ''hello'' \<and> test EMAIL ''hello a@bc.de'' \<and>
   score (fst (calculateRisk 0 ''hello'' (field ''Password'' ''text'') ''https:'')) = 30 \<and>
   score (fst (calculateRisk 0 ''hello a@bc.de'' (field ''Password'' ''text'') ''https:'')) = 65 \<and>
   score (fst (calculateRisk 0 ''hello'' (field ''Password'' ''text'') ''https:''))
     \<le> score (fst (calculateRisk 0 ''hello a@bc.de'' (field ''Password'' ''text'') ''https:''))"
proof -
  have "score (fst (calculateRisk 0 ''hello'' (field ''Password'' ''text'') ''https:''))
     \<le> score (fst (calculateRisk 0 ''hello a@bc.de'' (field ''Password'' ''text'') ''https:''))"
    using score_monotone [of "field ''Password'' ''text''" "field ''Password'' ''text''"
        "''hello''" "''hello a@bc.de''" 0 0 "''https:''" "''https:''"]
    by (simp add: hello_tests cardFound_def)
  then show ?thesis by (simp add: hello_tests hello_scores)
qed

section \<open>Payment-card detection\<close>









end
